theory Spec2Isabelle
  imports Main "HOL-Library.Sublist" "HOL-Library.Char_ord" "HOL-Library.List_Lexorder"
    "HOL-Library.AList" "HOL-Library.Multiset"
begin

section \<open>A modal command-line simulator: embedding of cisco\_sim.go\<close>

text \<open>
  The development follows \<^verbatim>\<open>Made-with-Gemini/cisco_sim-go/cisco_sim.go\<close>.
  Go strings are byte strings; they are modelled as \<^typ>\<open>string\<close>, and the library
  functions on them (\<^verbatim>\<open>strings.ToLower\<close>, \<^verbatim>\<open>strings.Fields\<close>, the regular
  expressions) are modelled on ASCII text, where they act bytewise.  Every handler is a
  method that mutates the simulator in place and returns an \<^verbatim>\<open>error\<close>; here it is
  a function from the simulator state and the argument list to the new state and an
  outcome, so that a mutation followed by an error return stays expressible.
\<close>

subsection \<open>Strings\<close>

definition sq :: string where
  "sq = [CHR 0x27]"

definition lowerChar :: "char \<Rightarrow> char" where
  "lowerChar c =
     (case map_of (zip ''ABCDEFGHIJKLMNOPQRSTUVWXYZ'' ''abcdefghijklmnopqrstuvwxyz'') c of
        Some l \<Rightarrow> l
      | None \<Rightarrow> c)"

definition ToLower :: "string \<Rightarrow> string" where
  "ToLower s = map lowerChar s"

definition HasPrefix :: "string \<Rightarrow> string \<Rightarrow> bool" where
  "HasPrefix s pre = prefix pre s"

definition isDigit :: "char \<Rightarrow> bool" where
  "isDigit c = (c \<in> set ''0123456789'')"

definition isLetter :: "char \<Rightarrow> bool" where
  "isLetter c = (c \<in> set ''abcdefghijklmnopqrstuvwxyzABCDEFGHIJKLMNOPQRSTUVWXYZ'')"

definition isAlnum :: "char \<Rightarrow> bool" where
  "isAlnum c = (isLetter c \<or> isDigit c)"

definition isHex :: "char \<Rightarrow> bool" where
  "isHex c = (c \<in> set ''0123456789abcdefABCDEF'')"

text \<open>White space of \<^verbatim>\<open>strings.Fields\<close> (tab, newline, vertical tab, form feed,
  carriage return, space) and of the regular expression class \<^verbatim>\<open>\s\<close> (the same
  without the vertical tab).\<close>

definition isSpace :: "char \<Rightarrow> bool" where
  "isSpace c = (c \<in> set [CHR 0x09, CHR 0x0A, CHR 0x0B, CHR 0x0C, CHR 0x0D, CHR 0x20])"

definition isReSpace :: "char \<Rightarrow> bool" where
  "isReSpace c = (c \<in> set [CHR 0x09, CHR 0x0A, CHR 0x0C, CHR 0x0D, CHR 0x20])"

fun fieldsFrom :: "string \<Rightarrow> string \<Rightarrow> string list" where
  "fieldsFrom cur [] = (if cur = [] then [] else [cur])"
| "fieldsFrom cur (c # cs) =
     (if isSpace c then (if cur = [] then fieldsFrom [] cs else cur # fieldsFrom [] cs)
      else fieldsFrom (cur @ [c]) cs)"

definition Fields :: "string \<Rightarrow> string list" where
  "Fields line = fieldsFrom [] line"

definition Join :: "string list \<Rightarrow> string" where
  "Join parts = concat parts"

definition digitVal :: "char \<Rightarrow> nat" where
  "digitVal c = length (takeWhile (\<lambda>d. d \<noteq> c) ''0123456789'')"

definition decimalVal :: "string \<Rightarrow> nat" where
  "decimalVal ds = foldl (\<lambda>acc c. acc * 10 + digitVal c) 0 ds"

text \<open>\<^verbatim>\<open>strconv.Atoi\<close> on a non-empty run of decimal digits, its error ignored as the
  caller does: the value, or the largest \<^verbatim>\<open>int\<close> (64 bits) when the value does not
  fit.\<close>

definition Atoi :: "string \<Rightarrow> int" where
  "Atoi ds = min (int (decimalVal ds)) (2 ^ 63 - 1)"

fun itoa :: "nat \<Rightarrow> string" where
  "itoa n =
     (if n < 10 then [''0123456789'' ! n]
      else itoa (n div 10) @ [''0123456789'' ! (n mod 10)])"

declare itoa.simps [simp del]

definition padLeftZero2 :: "string \<Rightarrow> string" where
  "padLeftZero2 s = replicate (2 - length s) CHR ''0'' @ s"

definition padRight :: "nat \<Rightarrow> string \<Rightarrow> string" where
  "padRight w s = s @ replicate (w - length s) CHR '' ''"

definition contains :: "string list \<Rightarrow> string \<Rightarrow> bool" where
  "contains slice item = (item \<in> set slice)"

subsection \<open>Data structures\<close>

datatype Mode = ModeUserExec | ModePrivExec | ModeGlobalConfig | ModeInterfaceConfig

text \<open>The four sentinel errors, each wrapped with the text that follows the sentinel's
  own message, and the errors made by a plain \<^verbatim>\<open>fmt.Errorf\<close>.\<close>

datatype error =
    ErrAmbiguousCommand string
  | ErrInvalidInput string
  | ErrIncompleteCommand string
  | ErrBadArguments string
  | ErrPlain string

text \<open>What a handler call ends in: a \<^verbatim>\<open>nil\<close> error, an error, the process left by
  \<^verbatim>\<open>os.Exit(0)\<close>, or the run-time panic of a field access through a \<^verbatim>\<open>nil\<close>
  pointer (a key missing from the interface map).\<close>

datatype outcome = Ok | Failed error | Exited | Panicked

record InterfaceConfig =
  IPAddress :: string
  SubnetMask :: string
  Status :: string
  AdminStatus :: string

text \<open>The interface map is an association list with its keys in the order in which a
  \<^verbatim>\<open>range\<close> loop visits them; Go leaves that order open, and the statements below
  that depend on it hold for every list.\<close>

record RunningConfig =
  Hostname :: string
  Interfaces :: "(string \<times> InterfaceConfig) list"

datatype Handler =
    DoEnable | DoExitQuit | DoDisable | DoConfigure | DoShow | ShowHistoryCmd
  | DoEnd | DoExitMode | DoHostname | DoInterface | DoNo | DoIP | DoShutdown | DoHelp

record CommandDef =
  Name :: string
  Handler :: Handler
  Modes :: "Mode list"

text \<open>The mutable fields of the simulator.  \<^verbatim>\<open>stdout\<close> collects the text of each
  \<^verbatim>\<open>fmt.Println\<close> and \<^verbatim>\<open>fmt.Printf\<close> call (without its final newline), and
  \<^verbatim>\<open>uptime\<close> stands for the whole seconds that \<^verbatim>\<open>time.Since(sim.startTime)\<close>
  reads.  The command tables are filled once by the constructor and only read afterwards;
  they are the constants \<open>definedCommands\<close> and \<open>modeCommandMap\<close> below.  The prompt of
  the line editor is a function of the state and is not stored.\<close>

record CiscoDeviceSimulator =
  hostname :: string
  mode :: Mode
  runningConfig :: RunningConfig
  currentInterface :: string
  commandHistory :: "string list"
  stdout :: "string list"
  uptime :: nat

definition NewCiscoDeviceSimulator :: "string \<Rightarrow> CiscoDeviceSimulator" where
  "NewCiscoDeviceSimulator h =
     \<lparr>hostname = h, mode = ModeUserExec,
      runningConfig = \<lparr>Hostname = h, Interfaces = []\<rparr>,
      currentInterface = [], commandHistory = [], stdout = [], uptime = 0\<rparr>"

subsection \<open>The command registry\<close>

definition commands :: "CommandDef list" where
  "commands =
     [\<lparr>Name = ''enable'', Handler = DoEnable, Modes = [ModeUserExec]\<rparr>,
      \<lparr>Name = ''exit'', Handler = DoExitQuit, Modes = [ModeUserExec, ModePrivExec]\<rparr>,
      \<lparr>Name = ''quit'', Handler = DoExitQuit, Modes = [ModeUserExec]\<rparr>,
      \<lparr>Name = ''disable'', Handler = DoDisable, Modes = [ModePrivExec]\<rparr>,
      \<lparr>Name = ''configure'', Handler = DoConfigure, Modes = [ModePrivExec]\<rparr>,
      \<lparr>Name = ''show'', Handler = DoShow, Modes = [ModePrivExec]\<rparr>,
      \<lparr>Name = ''history'', Handler = ShowHistoryCmd, Modes = [ModePrivExec]\<rparr>,
      \<lparr>Name = ''end'', Handler = DoEnd, Modes = [ModeGlobalConfig, ModeInterfaceConfig]\<rparr>,
      \<lparr>Name = ''exit'', Handler = DoExitMode, Modes = [ModeGlobalConfig, ModeInterfaceConfig]\<rparr>,
      \<lparr>Name = ''hostname'', Handler = DoHostname, Modes = [ModeGlobalConfig]\<rparr>,
      \<lparr>Name = ''interface'', Handler = DoInterface, Modes = [ModeGlobalConfig]\<rparr>,
      \<lparr>Name = ''no'', Handler = DoNo, Modes = [ModeGlobalConfig, ModeInterfaceConfig]\<rparr>,
      \<lparr>Name = ''ip'', Handler = DoIP, Modes = [ModeInterfaceConfig]\<rparr>,
      \<lparr>Name = ''shutdown'', Handler = DoShutdown, Modes = [ModeInterfaceConfig]\<rparr>]"

text \<open>The deduplication loop of \<^verbatim>\<open>registerCommands\<close>: a mode is appended to
  \<^verbatim>\<open>uniqueModes\<close> the first time it is seen.\<close>

fun uniqueModes :: "Mode list \<Rightarrow> Mode list \<Rightarrow> Mode list" where
  "uniqueModes uniq [] = uniq"
| "uniqueModes uniq (m # ms) =
     (if m \<in> set uniq then uniqueModes uniq ms else uniqueModes (uniq @ [m]) ms)"

text \<open>One round of the registration loop: a new name is entered as it is; for a name
  already present only the mode list of the entry is extended, its handler stays.\<close>

definition registerCommand ::
  "(string \<times> CommandDef) list \<Rightarrow> CommandDef \<Rightarrow> (string \<times> CommandDef) list" where
  "registerCommand defs cmd =
     (case map_of defs (Name cmd) of
        None \<Rightarrow> defs @ [(Name cmd, cmd)]
      | Some existingCmd \<Rightarrow>
          AList.update (Name cmd)
            (existingCmd\<lparr>Modes := uniqueModes [] (Modes existingCmd @ Modes cmd)\<rparr>) defs)"

definition registerCommands :: "(string \<times> CommandDef) list" where
  "registerCommands = foldl registerCommand [] commands"

definition definedCommands :: "(string \<times> CommandDef) list" where
  "definedCommands = registerCommands"

definition buildModeCommandMaps :: "Mode \<Rightarrow> (string \<times> CommandDef) list" where
  "buildModeCommandMaps m =
     map (\<lambda>(n, cmdDef). (Name cmdDef, cmdDef))
       (filter (\<lambda>(n, cmdDef). m \<in> set (Modes cmdDef)) definedCommands)"

definition modeCommandMap :: "Mode \<Rightarrow> (string \<times> CommandDef) list" where
  "modeCommandMap m = buildModeCommandMaps m"

definition getValidCommandsForMode :: "CiscoDeviceSimulator \<Rightarrow> string list" where
  "getValidCommandsForMode sim = sort (map fst (modeCommandMap (mode sim)) @ [''?''])"

subsection \<open>Abbreviation lookup\<close>

fun collectMatches :: "string \<Rightarrow> string list \<Rightarrow> CommandDef list" where
  "collectMatches userInputLower [] = []"
| "collectMatches userInputLower (cmdName # rest) =
     (if cmdName = ''?'' then collectMatches userInputLower rest
      else if HasPrefix (ToLower cmdName) userInputLower then
        (case map_of definedCommands cmdName of
           Some cmdDef \<Rightarrow> cmdDef # collectMatches userInputLower rest
         | None \<Rightarrow> collectMatches userInputLower rest)
      else collectMatches userInputLower rest)"

definition findCommandByAbbreviation ::
  "CiscoDeviceSimulator \<Rightarrow> string \<Rightarrow> error + CommandDef" where
  "findCommandByAbbreviation sim userInput =
     (let userInputLower = ToLower userInput;
          availableCommands = getValidCommandsForMode sim
      in if userInput = ''?'' then Inr \<lparr>Name = ''?'', Handler = DoHelp, Modes = []\<rparr>
         else
           (case collectMatches userInputLower availableCommands of
              [] \<Rightarrow> Inl (ErrInvalidInput userInput)
            | [m] \<Rightarrow> Inr m
            | matches \<Rightarrow>
                (case find (\<lambda>m. ToLower (Name m) = userInputLower) matches of
                   Some m \<Rightarrow> Inr m
                 | None \<Rightarrow> Inl (ErrAmbiguousCommand userInput))))"

subsection \<open>Validation of operands\<close>

text \<open>
  \<^verbatim>\<open>isValidIP\<close> is \<^verbatim>\<open>net.ParseIP(ipStr) != nil\<close>.  The parser belongs to Go's
  standard library; what follows is a model of the textual forms it accepts: the first
  of the bytes \<^verbatim>\<open>.\<close>, \<^verbatim>\<open>:\<close> and \<^verbatim>\<open>%\<close> in the text selects the dotted-decimal IPv4
  parser, the IPv6 parser, or a failure; a text with none of them fails; an IPv6 text with
  a zone is refused.
\<close>

text \<open>The IPv4 loop: \<open>val\<close> is the value of the octet being read, \<open>pos\<close> the number of
  octets finished, \<open>digLen\<close> the number of digits of the current octet, \<open>prev\<close> the
  preceding byte (\<open>None\<close> at the start of the text).\<close>

fun parseIPv4Fields :: "nat \<Rightarrow> nat \<Rightarrow> nat \<Rightarrow> char option \<Rightarrow> string \<Rightarrow> bool" where
  "parseIPv4Fields val pos digLen prev [] = (\<not> pos < 3)"
| "parseIPv4Fields val pos digLen prev (c # cs) =
     (if isDigit c then
        (if digLen = 1 \<and> val = 0 then False
         else if val * 10 + digitVal c > 255 then False
         else parseIPv4Fields (val * 10 + digitVal c) pos (digLen + 1) (Some c) cs)
      else if c = CHR ''.'' then
        (if prev = None \<or> cs = [] \<or> prev = Some CHR ''.'' then False
         else if pos = 3 then False
         else parseIPv4Fields 0 (pos + 1) 0 (Some c) cs)
      else False)"

definition parseIPv4 :: "string \<Rightarrow> bool" where
  "parseIPv4 s = parseIPv4Fields 0 0 0 None s"

text \<open>The IPv6 loop, one round for each group of hexadecimal digits: \<open>i\<close> is the number
  of address bytes filled so far, \<open>ellipsis\<close> tells whether \<^verbatim>\<open>::\<close> has been seen,
  \<open>n\<close> bounds the number of rounds that remain (eight suffice for sixteen bytes).  The
  result is the pair of the bytes filled and the ellipsis flag when the whole text has
  been used.\<close>

fun parseIPv6Groups :: "nat \<Rightarrow> nat \<Rightarrow> bool \<Rightarrow> string \<Rightarrow> (nat \<times> bool) option" where
  "parseIPv6Groups 0 i ellipsis s = (if s = [] then Some (i, ellipsis) else None)"
| "parseIPv6Groups (Suc n) i ellipsis s =
     (if \<not> i < 16 then (if s = [] then Some (i, ellipsis) else None)
      else
        (let off = length (takeWhile isHex s); rest = dropWhile isHex s
         in if off > 4 then None
            else if off = 0 then None
            else if rest \<noteq> [] \<and> hd rest = CHR ''.'' then
              (if \<not> ellipsis \<and> i \<noteq> 12 then None
               else if i + 4 > 16 then None
               else if parseIPv4 s then Some (i + 4, ellipsis)
               else None)
            else if rest = [] then Some (i + 2, ellipsis)
            else if hd rest \<noteq> CHR '':'' then None
            else if length rest = 1 then None
            else if hd (tl rest) = CHR '':'' then
              (if ellipsis then None
               else if tl (tl rest) = [] then Some (i + 2, True)
               else parseIPv6Groups n (i + 2) True (tl (tl rest)))
            else parseIPv6Groups n (i + 2) ellipsis (tl rest)))"

definition parseIPv6 :: "string \<Rightarrow> bool" where
  "parseIPv6 s =
     (if CHR ''%'' \<in> set s then False
      else if prefix ''::'' s \<and> drop 2 s = [] then True
      else
        (case parseIPv6Groups 8 0 (prefix ''::'' s) (if prefix ''::'' s then drop 2 s else s) of
           None \<Rightarrow> False
         | Some (i, ellipsis) \<Rightarrow> (if i < 16 then ellipsis else \<not> ellipsis)))"

definition ParseIP :: "string \<Rightarrow> bool" where
  "ParseIP s =
     (case dropWhile (\<lambda>c. c \<notin> set ''.:%'') s of
        [] \<Rightarrow> False
      | c # _ \<Rightarrow>
          (if c = CHR ''.'' then parseIPv4 s
           else if c = CHR '':'' then parseIPv6 s
           else False))"

definition isValidIP :: "string \<Rightarrow> bool" where
  "isValidIP ipStr = ParseIP ipStr"

text \<open>The number part of an interface: the expression \<^verbatim>\<open>^\d+/\d+$\<close>.\<close>

definition matchNumber :: "string \<Rightarrow> bool" where
  "matchNumber s =
     (let ds = takeWhile isDigit s; rest = dropWhile isDigit s
      in ds \<noteq> [] \<and> rest \<noteq> [] \<and> hd rest = CHR ''/'' \<and>
         tl rest \<noteq> [] \<and> (\<forall>c \<in> set (tl rest). isDigit c))"

definition normalizeInterfaceName :: "string \<Rightarrow> string \<Rightarrow> error + string" where
  "normalizeInterfaceName typePart numPart =
     (let t = ToLower typePart
      in if \<not> (HasPrefix t ''g'' \<or> HasPrefix t ''f'' \<or> HasPrefix t ''e'') then
           Inl (ErrPlain (''invalid interface type: '' @ typePart))
         else
           (let base = (if HasPrefix t ''g'' then ''GigabitEthernet''
                        else if HasPrefix t ''f'' then ''FastEthernet''
                        else ''Ethernet'')
            in if \<not> matchNumber numPart then
                 Inl (ErrPlain (''invalid interface number format: '' @ numPart))
               else Inr (base @ numPart)))"

text \<open>The expression of \<^verbatim>\<open>doHostname\<close>,
  \<^verbatim>\<open>^[a-zA-Z0-9]([a-zA-Z0-9\-]{0,61}[a-zA-Z0-9])?$\<close>: one alphanumeric byte, or
  two to sixty-three bytes that begin and end with one and have only alphanumeric bytes
  and hyphens between.\<close>

definition matchHostname :: "string \<Rightarrow> bool" where
  "matchHostname s =
     (s \<noteq> [] \<and> length s \<le> 63 \<and> isAlnum (hd s) \<and> isAlnum (last s) \<and>
      (\<forall>c \<in> set s. isAlnum c \<or> c = CHR ''-''))"

text \<open>The expression of \<^verbatim>\<open>doInterface\<close>, \<^verbatim>\<open>(?i)^([a-z]+?)\s*(\d+/\d+)$\<close>: the
  letters at the start are the first group whatever its greediness, since a letter is
  neither white space nor a digit; the result is the two groups.\<close>

definition matchInterface :: "string \<Rightarrow> (string \<times> string) option" where
  "matchInterface s =
     (let letters = takeWhile isLetter s;
          number = dropWhile isReSpace (dropWhile isLetter s)
      in if letters \<noteq> [] \<and> matchNumber number then Some (letters, number) else None)"

text \<open>The expression of \<^verbatim>\<open>sortInterfaceKey\<close>, \<^verbatim>\<open>(?i)([a-z]+)(\d+)/(\d+)\<close>, is not
  anchored.  \<open>matchKeyAt\<close> matches it at the start of a text: the longest run of letters,
  the longest run of digits, a slash and the longest run of digits (a shorter run of
  letters or digits is followed by a byte of the same class and cannot be continued);
  \<open>findKey\<close> is the leftmost match.\<close>

definition matchKeyAt :: "string \<Rightarrow> (string \<times> string \<times> string) option" where
  "matchKeyAt s =
     (let letters = takeWhile isLetter s; r1 = dropWhile isLetter s;
          slot = takeWhile isDigit r1; r2 = dropWhile isDigit r1
      in if letters \<noteq> [] \<and> slot \<noteq> [] \<and> r2 \<noteq> [] \<and> hd r2 = CHR ''/'' \<and>
            takeWhile isDigit (tl r2) \<noteq> []
         then Some (letters, slot, takeWhile isDigit (tl r2))
         else None)"

fun findKey :: "string \<Rightarrow> (string \<times> string \<times> string) option" where
  "findKey [] = matchKeyAt []"
| "findKey (c # cs) =
     (case matchKeyAt (c # cs) of
        Some m \<Rightarrow> Some m
      | None \<Rightarrow> findKey cs)"

definition typeWeight :: "string \<Rightarrow> int" where
  "typeWeight typePrefix =
     (let w0 = 99;
          w1 = (if HasPrefix typePrefix ''f'' then 1 else w0);
          w2 = (if HasPrefix typePrefix ''g'' then 2 else w1);
          w3 = (if HasPrefix typePrefix ''t'' then 3 else w2)
      in w3)"

definition sortInterfaceKey :: "string \<Rightarrow> int \<times> int \<times> int" where
  "sortInterfaceKey intfName =
     (case findKey intfName of
        None \<Rightarrow> (999, 0, 0)
      | Some (t, slot, port) \<Rightarrow> (typeWeight (ToLower t), Atoi slot, Atoi port))"

text \<open>The comparison that both renderers hand to \<^verbatim>\<open>sort.SliceStable\<close>.\<close>

definition lessInterface :: "string \<Rightarrow> string \<Rightarrow> bool" where
  "lessInterface a b =
     (case (sortInterfaceKey a, sortInterfaceKey b) of
        ((typeI, slotI, portI), (typeJ, slotJ, portJ)) \<Rightarrow>
          (if typeI \<noteq> typeJ then typeI < typeJ
           else if slotI \<noteq> slotJ then slotI < slotJ
           else portI < portJ))"

text \<open>\<^verbatim>\<open>sort.SliceStable\<close> is a library function; it is modelled by the insertion
  sort that keeps elements which are not less than one another in their given order.\<close>

fun insertStable :: "('a \<Rightarrow> 'a \<Rightarrow> bool) \<Rightarrow> 'a \<Rightarrow> 'a list \<Rightarrow> 'a list" where
  "insertStable lt x [] = [x]"
| "insertStable lt x (y # ys) =
     (if lt y x then y # insertStable lt x ys else x # y # ys)"

definition SliceStable :: "('a \<Rightarrow> 'a \<Rightarrow> bool) \<Rightarrow> 'a list \<Rightarrow> 'a list" where
  "SliceStable lt xs = foldr (insertStable lt) xs []"

definition sortedInterfaceNames :: "CiscoDeviceSimulator \<Rightarrow> string list" where
  "sortedInterfaceNames sim =
     SliceStable lessInterface (map fst (Interfaces (runningConfig sim)))"

subsection \<open>Command handlers\<close>

definition println :: "string list \<Rightarrow> CiscoDeviceSimulator \<Rightarrow> CiscoDeviceSimulator" where
  "println ls sim = sim\<lparr>stdout := stdout sim @ ls\<rparr>"

text \<open>A write through the pointer \<^verbatim>\<open>intfData\<close>: the entry of the interface map is
  replaced where it stands.\<close>

definition setInterface ::
  "string \<Rightarrow> InterfaceConfig \<Rightarrow> CiscoDeviceSimulator \<Rightarrow> CiscoDeviceSimulator" where
  "setInterface name intfData sim =
     sim\<lparr>runningConfig := (runningConfig sim)
       \<lparr>Interfaces := AList.update name intfData (Interfaces (runningConfig sim))\<rparr>\<rparr>"

definition doHelp :: "CiscoDeviceSimulator \<Rightarrow> string list \<Rightarrow> CiscoDeviceSimulator \<times> outcome" where
  "doHelp sim args =
     (println
        ([''Available commands in this context:'']
         @ map (\<lambda>cmd. ''  '' @ cmd) (getValidCommandsForMode sim)
         @ [''(Use TAB for completion, abbreviations are supported)'']) sim,
      Ok)"

definition doExitQuit :: "CiscoDeviceSimulator \<Rightarrow> string list \<Rightarrow> CiscoDeviceSimulator \<times> outcome" where
  "doExitQuit sim args =
     (if mode sim = ModeUserExec \<or> mode sim = ModePrivExec then
        (println [''Exiting simulator.''] sim, Exited)
      else (sim, Failed (ErrPlain ''exit/quit command not valid in this mode'')))"

definition doExitMode :: "CiscoDeviceSimulator \<Rightarrow> string list \<Rightarrow> CiscoDeviceSimulator \<times> outcome" where
  "doExitMode sim args =
     (case mode sim of
        ModeGlobalConfig \<Rightarrow> (sim\<lparr>mode := ModePrivExec\<rparr>, Ok)
      | ModeInterfaceConfig \<Rightarrow> (sim\<lparr>mode := ModeGlobalConfig, currentInterface := []\<rparr>, Ok)
      | _ \<Rightarrow> (sim, Failed (ErrPlain ''exit command not valid in this mode'')))"

definition doEnd :: "CiscoDeviceSimulator \<Rightarrow> string list \<Rightarrow> CiscoDeviceSimulator \<times> outcome" where
  "doEnd sim args =
     (if mode sim = ModeGlobalConfig \<or> mode sim = ModeInterfaceConfig then
        (sim\<lparr>mode := ModePrivExec, currentInterface := []\<rparr>, Ok)
      else (sim, Failed (ErrPlain ''end command not valid in this mode'')))"

definition doEnable :: "CiscoDeviceSimulator \<Rightarrow> string list \<Rightarrow> CiscoDeviceSimulator \<times> outcome" where
  "doEnable sim args = (sim\<lparr>mode := ModePrivExec\<rparr>, Ok)"

definition doDisable :: "CiscoDeviceSimulator \<Rightarrow> string list \<Rightarrow> CiscoDeviceSimulator \<times> outcome" where
  "doDisable sim args = (sim\<lparr>mode := ModeUserExec\<rparr>, Ok)"

definition doConfigure :: "CiscoDeviceSimulator \<Rightarrow> string list \<Rightarrow> CiscoDeviceSimulator \<times> outcome" where
  "doConfigure sim args =
     (if length args < 1 \<or> \<not> HasPrefix (ToLower (hd args)) ''t'' then
        (sim, Failed (ErrIncompleteCommand (''expecting '' @ sq @ ''configure terminal'' @ sq)))
      else
        (println [''Enter configuration commands, one per line. End with CNTL/Z or 'end'.'']
           (sim\<lparr>mode := ModeGlobalConfig\<rparr>),
         Ok))"

definition doHostname :: "CiscoDeviceSimulator \<Rightarrow> string list \<Rightarrow> CiscoDeviceSimulator \<times> outcome" where
  "doHostname sim args =
     (if length args < 1 then
        (sim, Failed (ErrIncompleteCommand (''expecting '' @ sq @ ''hostname <name>'' @ sq)))
      else
        (let newName = hd args
         in if \<not> matchHostname newName then (sim, Failed (ErrPlain ''invalid hostname format''))
            else (sim\<lparr>runningConfig := (runningConfig sim)\<lparr>Hostname := newName\<rparr>\<rparr>, Ok)))"

definition doInterface :: "CiscoDeviceSimulator \<Rightarrow> string list \<Rightarrow> CiscoDeviceSimulator \<times> outcome" where
  "doInterface sim args =
     (if length args < 1 then
        (sim, Failed (ErrIncompleteCommand
           (''expecting '' @ sq @ ''interface <type><number>'' @ sq @ '' or '' @ sq
            @ ''interface <type> <number>'' @ sq)))
      else
        (let intfInput = Join args;
             match = (case matchInterface intfInput of
                        Some groups \<Rightarrow> Some groups
                      | None \<Rightarrow> (if length args = 2 then Some (args ! 0, args ! 1) else None))
         in case match of
              None \<Rightarrow>
                (sim, Failed (ErrPlain
                   (''invalid interface format: '' @ intfInput @ ''. Expecting e.g., 'g0/0', ''
                    @ sq @ ''FastEthernet0/1'' @ sq)))
            | Some (intfTypePart, intfNumPart) \<Rightarrow>
                (case normalizeInterfaceName intfTypePart intfNumPart of
                   Inl err \<Rightarrow> (sim, Failed err)
                 | Inr intfName \<Rightarrow>
                     (let rc = runningConfig sim;
                          interfaces =
                            (if map_of (Interfaces rc) intfName = None then
                               Interfaces rc @
                                 [(intfName,
                                   \<lparr>IPAddress = [], SubnetMask = [],
                                    Status = ''administratively down'',
                                    AdminStatus = ''down''\<rparr>)]
                             else Interfaces rc)
                      in (sim\<lparr>runningConfig := rc\<lparr>Interfaces := interfaces\<rparr>,
                              currentInterface := intfName,
                              mode := ModeInterfaceConfig\<rparr>,
                          Ok)))))"

definition doIP :: "CiscoDeviceSimulator \<Rightarrow> string list \<Rightarrow> CiscoDeviceSimulator \<times> outcome" where
  "doIP sim args =
     (if currentInterface sim = [] then
        (sim, Failed (ErrPlain ''command must be run in interface configuration mode''))
      else if length args < 1 \<or> \<not> HasPrefix (ToLower (hd args)) ''a'' then
        (sim, Failed (ErrIncompleteCommand (''expecting '' @ sq @ ''ip address <ip> <subnet>'' @ sq)))
      else if length args \<noteq> 3 then
        (sim, Failed (ErrBadArguments (''expecting '' @ sq @ ''ip address <ip> <subnet>'' @ sq)))
      else
        (let ipAddr = args ! 1; subnetMask = args ! 2
         in if \<not> isValidIP ipAddr then
              (sim, Failed (ErrPlain (''invalid IP address format: '' @ ipAddr)))
            else if \<not> isValidIP subnetMask then
              (sim, Failed (ErrPlain (''invalid subnet mask format: '' @ subnetMask)))
            else
              (case map_of (Interfaces (runningConfig sim)) (currentInterface sim) of
                 None \<Rightarrow> (sim, Panicked)
               | Some intfData \<Rightarrow>
                   (let d1 = intfData\<lparr>IPAddress := ipAddr, SubnetMask := subnetMask\<rparr>;
                        d2 = (if AdminStatus d1 = ''up'' then d1\<lparr>Status := ''up''\<rparr> else d1)
                    in (setInterface (currentInterface sim) d2 sim, Ok)))))"

definition doShutdown :: "CiscoDeviceSimulator \<Rightarrow> string list \<Rightarrow> CiscoDeviceSimulator \<times> outcome" where
  "doShutdown sim args =
     (if currentInterface sim = [] then
        (sim, Failed (ErrPlain ''command must be run in interface configuration mode''))
      else if length args > 0 then
        (sim, Failed (ErrBadArguments (sq @ ''shutdown'' @ sq @ '' takes no arguments'')))
      else
        (case map_of (Interfaces (runningConfig sim)) (currentInterface sim) of
           None \<Rightarrow> (sim, Panicked)
         | Some intfData \<Rightarrow>
             (setInterface (currentInterface sim)
                (intfData\<lparr>Status := ''administratively down'', AdminStatus := ''down''\<rparr>) sim,
              Ok)))"

definition noShutdown :: "CiscoDeviceSimulator \<Rightarrow> string list \<Rightarrow> CiscoDeviceSimulator \<times> outcome" where
  "noShutdown sim args =
     (if currentInterface sim = [] then (sim, Failed (ErrPlain ''not in interface mode''))
      else if length args > 0 then
        (sim, Failed (ErrBadArguments (sq @ ''no shutdown'' @ sq @ '' takes no arguments'')))
      else
        (case map_of (Interfaces (runningConfig sim)) (currentInterface sim) of
           None \<Rightarrow> (sim, Panicked)
         | Some intfData \<Rightarrow>
             (let d1 = intfData\<lparr>AdminStatus := ''up''\<rparr>;
                  d2 = (if IPAddress d1 \<noteq> [] then d1\<lparr>Status := ''up''\<rparr>
                        else d1\<lparr>Status := ''down''\<rparr>)
              in (setInterface (currentInterface sim) d2 sim, Ok))))"

definition noIPAddress :: "CiscoDeviceSimulator \<Rightarrow> string list \<Rightarrow> CiscoDeviceSimulator \<times> outcome" where
  "noIPAddress sim args =
     (if currentInterface sim = [] then (sim, Failed (ErrPlain ''not in interface mode''))
      else if length args > 0 then
        (sim, Failed (ErrBadArguments
           (sq @ ''no ip address'' @ sq @ '' takes no further arguments'')))
      else
        (case map_of (Interfaces (runningConfig sim)) (currentInterface sim) of
           None \<Rightarrow> (sim, Panicked)
         | Some intfData \<Rightarrow>
             (let d1 = intfData\<lparr>IPAddress := [], SubnetMask := []\<rparr>;
                  d2 = (if AdminStatus d1 = ''up'' then d1\<lparr>Status := ''down''\<rparr> else d1)
              in (setInterface (currentInterface sim) d2 sim, Ok))))"

definition doNo :: "CiscoDeviceSimulator \<Rightarrow> string list \<Rightarrow> CiscoDeviceSimulator \<times> outcome" where
  "doNo sim args =
     (if length args < 1 then
        (sim, Failed (ErrIncompleteCommand (sq @ ''no'' @ sq @ '' command'')))
      else if mode sim \<noteq> ModeInterfaceConfig \<and> mode sim \<noteq> ModeGlobalConfig then
        (sim, Failed (ErrPlain (sq @ ''no'' @ sq @ '' command not applicable in this mode'')))
      else
        (let noSubCommandInput = hd args;
             subArgs = tl args;
             possibleNoCommands =
               (if mode sim = ModeInterfaceConfig then [''shutdown'', ''ip'']
                else [''hostname'', ''interface'']);
             matches = filter (\<lambda>cmd. HasPrefix (ToLower cmd) (ToLower noSubCommandInput))
                         possibleNoCommands;
             matchedSubCommand =
               (if length matches = 1 then hd matches
                else if length matches > 1 then
                  (case find (\<lambda>m. ToLower m = ToLower noSubCommandInput) matches of
                     Some m \<Rightarrow> m
                   | None \<Rightarrow> [])
                else []);
             ambiguous = (length matches > 1 \<and> matchedSubCommand = [])
         in if ambiguous then
              (sim, Failed (ErrAmbiguousCommand (''no '' @ noSubCommandInput)))
            else if matchedSubCommand = [] then
              (sim, Failed (ErrInvalidInput (''no '' @ noSubCommandInput)))
            else
              (case mode sim of
                 ModeInterfaceConfig \<Rightarrow>
                   (if matchedSubCommand = ''shutdown'' then noShutdown sim subArgs
                    else if matchedSubCommand = ''ip'' then
                      (if length subArgs < 1 \<or> \<not> HasPrefix (ToLower (hd subArgs)) ''a'' then
                         (sim, Failed (ErrIncompleteCommand
                            (''expecting '' @ sq @ ''no ip address'' @ sq)))
                       else noIPAddress sim (tl subArgs))
                    else
                      (sim, Failed (ErrPlain
                         (''internal error: unhandled 'no' subcommand '' @ sq
                          @ matchedSubCommand @ sq @ '' in IF mode''))))
               | ModeGlobalConfig \<Rightarrow>
                   (if matchedSubCommand = ''hostname'' then
                      (sim, Failed (ErrPlain
                         (''cannot '' @ sq @ ''no hostname'' @ sq @ ''. Set a new one instead'')))
                    else if matchedSubCommand = ''interface'' then
                      (sim, Failed (ErrPlain
                         (''use '' @ sq @ ''default interface <name>'' @ sq
                          @ '' to reset an interface (not implemented)'')))
                    else
                      (sim, Failed (ErrPlain
                         (''internal error: unhandled 'no' subcommand '' @ sq
                          @ matchedSubCommand @ sq @ '' in Global mode''))))
               | _ \<Rightarrow>
                   (sim, Failed (ErrPlain
                      (''internal error: '' @ sq @ ''no'' @ sq
                       @ '' command reached unexpected state''))))))"

subsection \<open>The show family\<close>

definition showVersion :: "CiscoDeviceSimulator \<Rightarrow> string list \<Rightarrow> CiscoDeviceSimulator \<times> outcome" where
  "showVersion sim args =
     (if length args > 0 then
        (sim, Failed (ErrBadArguments (sq @ ''show version'' @ sq @ '' takes no arguments'')))
      else
        (let uptimeSeconds = uptime sim;
             hours = uptimeSeconds div 3600;
             minutes = (uptimeSeconds mod 3600) div 60;
             seconds = uptimeSeconds mod 60
         in (println
               [''Basic Cisco IOS Simulator (Go)'',
                ''Version: 1.0 (Simulated)'',
                ''Hostname: '' @ Hostname (runningConfig sim),
                ''Uptime: '' @ padLeftZero2 (itoa hours) @ ''h '' @ padLeftZero2 (itoa minutes)
                  @ ''m '' @ padLeftZero2 (itoa seconds) @ ''s (Simulated)'',
                CHR 0x0A # ''(Limited information in this simulation)''] sim,
             Ok)))"

text \<open>The printing loop of \<^verbatim>\<open>showRunningConfig\<close> over the sorted names.  Each name
  is looked up in the interface map again; a missing entry would stop the loop with a
  panic after the first line of its block.\<close>

fun printInterfaceBlocks ::
  "(string \<times> InterfaceConfig) list \<Rightarrow> string list \<Rightarrow> string list \<times> outcome" where
  "printInterfaceBlocks interfaces [] = ([], Ok)"
| "printInterfaceBlocks interfaces (intfName # rest) =
     (case map_of interfaces intfName of
        None \<Rightarrow> ([''interface '' @ intfName], Panicked)
      | Some intfData \<Rightarrow>
          (let block =
                 [''interface '' @ intfName]
                 @ (if IPAddress intfData \<noteq> [] \<and> SubnetMask intfData \<noteq> [] then
                      ['' ip address '' @ IPAddress intfData @ '' '' @ SubnetMask intfData]
                    else [])
                 @ (if AdminStatus intfData = ''down'' then ['' shutdown''] else [])
                 @ [''!''];
               (ls, r) = printInterfaceBlocks interfaces rest
           in (block @ ls, r)))"

definition showRunningConfig ::
  "CiscoDeviceSimulator \<Rightarrow> string list \<Rightarrow> CiscoDeviceSimulator \<times> outcome" where
  "showRunningConfig sim args =
     (if length args > 0 then
        (sim, Failed (ErrBadArguments
           (sq @ ''show running-config'' @ sq @ '' takes no arguments'')))
      else
        (let header =
               [''Building configuration...'', ''!'', ''version 1.0 (Simulated)'', ''!'',
                ''hostname '' @ Hostname (runningConfig sim), ''!''];
             intfNames = sortedInterfaceNames sim;
             (ls, r) = printInterfaceBlocks (Interfaces (runningConfig sim)) intfNames
         in if r = Ok then (println (header @ ls @ [''!'', ''end'']) sim, Ok)
            else (println (header @ ls) sim, r)))"

fun printBriefLines ::
  "(string \<times> InterfaceConfig) list \<Rightarrow> string list \<Rightarrow> string list \<times> outcome" where
  "printBriefLines interfaces [] = ([], Ok)"
| "printBriefLines interfaces (intfName # rest) =
     (case map_of interfaces intfName of
        None \<Rightarrow> ([], Panicked)
      | Some intfData \<Rightarrow>
          (let ipAddr = (if IPAddress intfData \<noteq> [] then IPAddress intfData else ''unassigned'');
               ok = (if IPAddress intfData \<noteq> [] then ''YES'' else ''NO '');
               method = (if IPAddress intfData \<noteq> [] then ''manual'' else ''unset '');
               status = Status intfData;
               protocol = status;
               line = padRight 26 intfName @ '' '' @ padRight 15 ipAddr @ '' '' @ padRight 3 ok
                      @ '' '' @ padRight 6 method @ '' '' @ padRight 21 status @ '' '' @ protocol;
               (ls, r) = printBriefLines interfaces rest
           in (line # ls, r)))"

definition showIPInterfaceBrief ::
  "CiscoDeviceSimulator \<Rightarrow> string list \<Rightarrow> CiscoDeviceSimulator \<times> outcome" where
  "showIPInterfaceBrief sim args =
     (if length args > 0 then
        (sim, Failed (ErrBadArguments
           (''extra arguments after '' @ sq @ ''show ip interface brief'' @ sq)))
      else
        (let header =
               [''Interface                  IP-Address      OK? Method Status                Protocol''];
             intfNames = sortedInterfaceNames sim;
             (ls, r) = printBriefLines (Interfaces (runningConfig sim)) intfNames
         in (println (header @ ls) sim, r)))"

definition showHistoryCmd ::
  "CiscoDeviceSimulator \<Rightarrow> string list \<Rightarrow> CiscoDeviceSimulator \<times> outcome" where
  "showHistoryCmd sim args =
     (if length args > 0 then
        (sim, Failed (ErrBadArguments (sq @ ''history'' @ sq @ '' takes no arguments'')))
      else
        (println
           (''Command History:''
            # map (\<lambda>i. '' '' @ itoa (i + 1) @ '': '' @ commandHistory sim ! i)
                [0 ..< length (commandHistory sim)]) sim,
         Ok))"

definition doShow :: "CiscoDeviceSimulator \<Rightarrow> string list \<Rightarrow> CiscoDeviceSimulator \<times> outcome" where
  "doShow sim args =
     (if length args < 1 then
        (sim, Failed (ErrIncompleteCommand (''expecting '' @ sq @ ''show <subcommand>'' @ sq)))
      else
        (let subCommandInput = hd args;
             subArgs = tl args;
             showOptions = [''version'', ''running-config'', ''run'', ''ip'', ''history''];
             matches = filter (\<lambda>opt. HasPrefix opt (ToLower subCommandInput)) showOptions;
             matchedSubCommand =
               (if length matches = 1 then hd matches
                else if length matches > 1 then
                  (if ToLower subCommandInput = ''run'' \<and> contains matches ''running-config''
                   then ''running-config''
                   else
                     (case find (\<lambda>m. ToLower m = ToLower subCommandInput) matches of
                        Some m \<Rightarrow> m
                      | None \<Rightarrow> []))
                else []);
             ambiguous = (length matches > 1 \<and> matchedSubCommand = [])
         in if ambiguous then
              (sim, Failed (ErrAmbiguousCommand (''show '' @ subCommandInput)))
            else if matchedSubCommand = [] then
              (sim, Failed (ErrInvalidInput (''show '' @ subCommandInput)))
            else if matchedSubCommand = ''version'' then showVersion sim subArgs
            else if matchedSubCommand = ''running-config'' then showRunningConfig sim subArgs
            else if matchedSubCommand = ''ip'' then
              (if length subArgs < 1 \<or> \<not> HasPrefix (ToLower (subArgs ! 0)) ''i'' then
                 (sim, Failed (ErrIncompleteCommand
                    (''expecting '' @ sq @ ''show ip interface brief'' @ sq)))
               else if length subArgs < 2 \<or> \<not> HasPrefix (ToLower (subArgs ! 1)) ''b'' then
                 (sim, Failed (ErrIncompleteCommand
                    (''expecting '' @ sq @ ''show ip interface brief'' @ sq)))
               else if length subArgs > 2 then
                 (sim, Failed (ErrBadArguments
                    (''extra arguments after '' @ sq @ ''show ip interface brief'' @ sq)))
               else showIPInterfaceBrief sim (drop 2 subArgs))
            else if matchedSubCommand = ''history'' then showHistoryCmd sim subArgs
            else
              (sim, Failed (ErrPlain
                 (''internal error: unhandled show command '' @ sq @ matchedSubCommand @ sq)))))"

subsection \<open>Dispatch\<close>

fun callHandler ::
  "Handler \<Rightarrow> CiscoDeviceSimulator \<Rightarrow> string list \<Rightarrow> CiscoDeviceSimulator \<times> outcome" where
  "callHandler DoEnable = doEnable"
| "callHandler DoExitQuit = doExitQuit"
| "callHandler DoDisable = doDisable"
| "callHandler DoConfigure = doConfigure"
| "callHandler DoShow = doShow"
| "callHandler ShowHistoryCmd = showHistoryCmd"
| "callHandler DoEnd = doEnd"
| "callHandler DoExitMode = doExitMode"
| "callHandler DoHostname = doHostname"
| "callHandler DoInterface = doInterface"
| "callHandler DoNo = doNo"
| "callHandler DoIP = doIP"
| "callHandler DoShutdown = doShutdown"
| "callHandler DoHelp = doHelp"

text \<open>\<^verbatim>\<open>processCommand\<close>: an empty line is ignored, a lookup error is returned as it
  is, and otherwise the handler of the command found is called with the remaining words.
  A handler is never \<^verbatim>\<open>nil\<close> here, so the last branch of the source is not
  reached.\<close>

definition processCommand :: "CiscoDeviceSimulator \<Rightarrow> string \<Rightarrow> CiscoDeviceSimulator \<times> outcome" where
  "processCommand sim line =
     (case Fields line of
        [] \<Rightarrow> (sim, Ok)
      | userCmdInput # args \<Rightarrow>
          (case findCommandByAbbreviation sim userCmdInput of
             Inl err \<Rightarrow> (sim, Failed err)
           | Inr cmdDef \<Rightarrow> callHandler (Handler cmdDef) sim args))"

text \<open>A session: the lines are processed in turn from the given state; the loop ends
  where a handler leaves the process or panics.\<close>

fun processLines :: "CiscoDeviceSimulator \<Rightarrow> string list \<Rightarrow> CiscoDeviceSimulator" where
  "processLines sim [] = sim"
| "processLines sim (line # rest) =
     (case processCommand sim line of
        (sim', Exited) \<Rightarrow> sim'
      | (sim', Panicked) \<Rightarrow> sim'
      | (sim', _) \<Rightarrow> processLines sim' rest)"

text \<open>The states a run of the simulator passes through.  Besides processing a line, the
  run loop appends the line to the history, prints diagnostics, and on end of input in a
  configuration mode calls \<^verbatim>\<open>doExitMode\<close>; the clock advances on its own.\<close>

inductive reachable :: "CiscoDeviceSimulator \<Rightarrow> bool" where
  start: "reachable (NewCiscoDeviceSimulator h)"
| line: "reachable sim \<Longrightarrow> reachable (fst (processCommand sim l))"
| eof: "reachable sim \<Longrightarrow> reachable (fst (doExitMode sim []))"
| env: "reachable sim \<Longrightarrow>
        reachable (sim\<lparr>commandHistory := hist, stdout := out, uptime := t\<rparr>)"

text \<open>The invariant of an interface entry.\<close>

definition interfaceInvariant :: "InterfaceConfig \<Rightarrow> bool" where
  "interfaceInvariant i =
     ((AdminStatus i = ''down'' \<longrightarrow> Status i = ''administratively down'') \<and>
      (AdminStatus i = ''up'' \<and> IPAddress i \<noteq> [] \<longrightarrow> Status i = ''up'') \<and>
      (AdminStatus i = ''up'' \<and> IPAddress i = [] \<longrightarrow> Status i = ''down''))"

definition configInvariant :: "CiscoDeviceSimulator \<Rightarrow> bool" where
  "configInvariant sim =
     (\<forall>i \<in> snd ` set (Interfaces (runningConfig sim)). interfaceInvariant i)"

section \<open>Properties\<close>

subsection \<open>The registry, evaluated\<close>

lemma definedCommands_eq:
  "definedCommands =
     [(''enable'', \<lparr>Name = ''enable'', Handler = DoEnable, Modes = [ModeUserExec]\<rparr>),
      (''exit'', \<lparr>Name = ''exit'', Handler = DoExitQuit,
         Modes = [ModeUserExec, ModePrivExec, ModeGlobalConfig, ModeInterfaceConfig]\<rparr>),
      (''quit'', \<lparr>Name = ''quit'', Handler = DoExitQuit, Modes = [ModeUserExec]\<rparr>),
      (''disable'', \<lparr>Name = ''disable'', Handler = DoDisable, Modes = [ModePrivExec]\<rparr>),
      (''configure'', \<lparr>Name = ''configure'', Handler = DoConfigure, Modes = [ModePrivExec]\<rparr>),
      (''show'', \<lparr>Name = ''show'', Handler = DoShow, Modes = [ModePrivExec]\<rparr>),
      (''history'', \<lparr>Name = ''history'', Handler = ShowHistoryCmd, Modes = [ModePrivExec]\<rparr>),
      (''end'', \<lparr>Name = ''end'', Handler = DoEnd,
         Modes = [ModeGlobalConfig, ModeInterfaceConfig]\<rparr>),
      (''hostname'', \<lparr>Name = ''hostname'', Handler = DoHostname, Modes = [ModeGlobalConfig]\<rparr>),
      (''interface'', \<lparr>Name = ''interface'', Handler = DoInterface,
         Modes = [ModeGlobalConfig]\<rparr>),
      (''no'', \<lparr>Name = ''no'', Handler = DoNo,
         Modes = [ModeGlobalConfig, ModeInterfaceConfig]\<rparr>),
      (''ip'', \<lparr>Name = ''ip'', Handler = DoIP, Modes = [ModeInterfaceConfig]\<rparr>),
      (''shutdown'', \<lparr>Name = ''shutdown'', Handler = DoShutdown,
         Modes = [ModeInterfaceConfig]\<rparr>)]"
  by (simp add: definedCommands_def registerCommands_def commands_def registerCommand_def)

lemma modeCommandMap_names:
  "map fst (modeCommandMap ModeUserExec) = [''enable'', ''exit'', ''quit'']"
  "map fst (modeCommandMap ModePrivExec) =
     [''exit'', ''disable'', ''configure'', ''show'', ''history'']"
  "map fst (modeCommandMap ModeGlobalConfig) =
     [''exit'', ''end'', ''hostname'', ''interface'', ''no'']"
  "map fst (modeCommandMap ModeInterfaceConfig) =
     [''exit'', ''end'', ''no'', ''ip'', ''shutdown'']"
  by (simp_all add: modeCommandMap_def buildModeCommandMaps_def definedCommands_eq)

lemma getValidCommandsForMode_eq:
  "mode sim = ModeUserExec \<Longrightarrow>
     getValidCommandsForMode sim = [''?'', ''enable'', ''exit'', ''quit'']"
  "mode sim = ModePrivExec \<Longrightarrow>
     getValidCommandsForMode sim =
       [''?'', ''configure'', ''disable'', ''exit'', ''history'', ''show'']"
  "mode sim = ModeGlobalConfig \<Longrightarrow>
     getValidCommandsForMode sim = [''?'', ''end'', ''exit'', ''hostname'', ''interface'', ''no'']"
  "mode sim = ModeInterfaceConfig \<Longrightarrow>
     getValidCommandsForMode sim = [''?'', ''end'', ''exit'', ''ip'', ''no'', ''shutdown'']"
  by (simp_all add: getValidCommandsForMode_def modeCommandMap_names)

lemmas string_evals =
  Fields_def isSpace_def HasPrefix_def ToLower_def lowerChar_def

lemma ToLower_names:
  "ToLower ''enable'' = ''enable''" "ToLower ''exit'' = ''exit''" "ToLower ''quit'' = ''quit''"
  "ToLower ''disable'' = ''disable''" "ToLower ''configure'' = ''configure''"
  "ToLower ''show'' = ''show''" "ToLower ''history'' = ''history''" "ToLower ''end'' = ''end''"
  "ToLower ''hostname'' = ''hostname''" "ToLower ''interface'' = ''interface''"
  "ToLower ''no'' = ''no''" "ToLower ''ip'' = ''ip''" "ToLower ''shutdown'' = ''shutdown''"
  "ToLower ''version'' = ''version''" "ToLower ''running-config'' = ''running-config''"
  "ToLower ''run'' = ''run''" "ToLower [] = []"
  by (simp_all add: ToLower_def lowerChar_def)

lemma show_ambiguous:
  assumes "ToLower t = [] \<or> ToLower t = ''r'' \<or> ToLower t = ''ru''"
  shows "doShow sim (t # rest) = (sim, Failed (ErrAmbiguousCommand (''show '' @ t)))"
  using assms
proof (elim disjE)
  assume "ToLower t = []"
  then show ?thesis
    by (simp add: doShow_def HasPrefix_def contains_def Let_def ToLower_names)
next
  assume "ToLower t = ''r''"
  then show ?thesis
    by (simp add: doShow_def HasPrefix_def contains_def Let_def ToLower_names)
next
  assume "ToLower t = ''ru''"
  then show ?thesis
    by (simp add: doShow_def HasPrefix_def contains_def Let_def ToLower_names)
qed

lemma strict_prefix_run:
  "strict_prefix u ''run'' \<Longrightarrow> u = [] \<or> u = ''r'' \<or> u = ''ru''"
  by (auto simp add: strict_prefix_def prefix_Cons)

subsection \<open>The shape of the two dispatching handlers\<close>

lemma doNo_cases:
  "(\<exists>e. doNo sim args = (sim, Failed e)) \<or> doNo sim args = noShutdown sim (tl args) \<or>
   doNo sim args = noIPAddress sim (tl (tl args))"
proof -
  have tail: "(\<exists>e. r = (sim, Failed e)) \<or> r = noShutdown sim (tl args) \<or>
      r = noIPAddress sim (tl (tl args))"
    if "r =
       (if length args < 1 then
          (sim, Failed (ErrIncompleteCommand (sq @ ''no'' @ sq @ '' command'')))
        else if mode sim \<noteq> ModeInterfaceConfig \<and> mode sim \<noteq> ModeGlobalConfig then
          (sim, Failed (ErrPlain (sq @ ''no'' @ sq @ '' command not applicable in this mode'')))
        else if ambiguous then (sim, Failed (ErrAmbiguousCommand (''no '' @ hd args)))
        else if matched = [] then (sim, Failed (ErrInvalidInput (''no '' @ hd args)))
        else
          (case mode sim of
             ModeInterfaceConfig \<Rightarrow>
               (if matched = ''shutdown'' then noShutdown sim (tl args)
                else if matched = ''ip'' then
                  (if length (tl args) < 1 \<or> \<not> HasPrefix (ToLower (hd (tl args))) ''a'' then
                     (sim, Failed (ErrIncompleteCommand
                        (''expecting '' @ sq @ ''no ip address'' @ sq)))
                   else noIPAddress sim (tl (tl args)))
                else
                  (sim, Failed (ErrPlain
                     (''internal error: unhandled 'no' subcommand '' @ sq
                      @ matched @ sq @ '' in IF mode''))))
           | ModeGlobalConfig \<Rightarrow>
               (if matched = ''hostname'' then
                  (sim, Failed (ErrPlain
                     (''cannot '' @ sq @ ''no hostname'' @ sq @ ''. Set a new one instead'')))
                else if matched = ''interface'' then
                  (sim, Failed (ErrPlain
                     (''use '' @ sq @ ''default interface <name>'' @ sq
                      @ '' to reset an interface (not implemented)'')))
                else
                  (sim, Failed (ErrPlain
                     (''internal error: unhandled 'no' subcommand '' @ sq
                      @ matched @ sq @ '' in Global mode''))))
           | _ \<Rightarrow>
               (sim, Failed (ErrPlain
                  (''internal error: '' @ sq @ ''no'' @ sq
                   @ '' command reached unexpected state'')))))"
    for r matched ambiguous
    unfolding that by (simp split: Mode.split)
  show ?thesis
    by (rule tail) (simp only: doNo_def Let_def)
qed

lemma doShow_cases:
  "(\<exists>e. doShow sim args = (sim, Failed e)) \<or> doShow sim args = showVersion sim (tl args) \<or>
   doShow sim args = showRunningConfig sim (tl args) \<or>
   doShow sim args = showIPInterfaceBrief sim (drop 2 (tl args)) \<or>
   doShow sim args = showHistoryCmd sim (tl args)"
proof -
  have tail: "(\<exists>e. r = (sim, Failed e)) \<or> r = showVersion sim (tl args) \<or>
      r = showRunningConfig sim (tl args) \<or>
      r = showIPInterfaceBrief sim (drop 2 (tl args)) \<or>
      r = showHistoryCmd sim (tl args)"
    if "r =
       (if length args < 1 then
          (sim, Failed (ErrIncompleteCommand (''expecting '' @ sq @ ''show <subcommand>'' @ sq)))
        else if ambiguous then
          (sim, Failed (ErrAmbiguousCommand (''show '' @ hd args)))
        else if matched = [] then
          (sim, Failed (ErrInvalidInput (''show '' @ hd args)))
        else if matched = ''version'' then showVersion sim (tl args)
        else if matched = ''running-config'' then showRunningConfig sim (tl args)
        else if matched = ''ip'' then
          (if length (tl args) < 1 \<or> \<not> HasPrefix (ToLower (tl args ! 0)) ''i'' then
             (sim, Failed (ErrIncompleteCommand
                (''expecting '' @ sq @ ''show ip interface brief'' @ sq)))
           else if length (tl args) < 2 \<or> \<not> HasPrefix (ToLower (tl args ! 1)) ''b'' then
             (sim, Failed (ErrIncompleteCommand
                (''expecting '' @ sq @ ''show ip interface brief'' @ sq)))
           else if length (tl args) > 2 then
             (sim, Failed (ErrBadArguments
                (''extra arguments after '' @ sq @ ''show ip interface brief'' @ sq)))
           else showIPInterfaceBrief sim (drop 2 (tl args)))
        else if matched = ''history'' then showHistoryCmd sim (tl args)
        else
          (sim, Failed (ErrPlain
             (''internal error: unhandled show command '' @ sq @ matched @ sq))))"
    for r matched ambiguous
    unfolding that by simp
  show ?thesis
    by (rule tail) (simp only: doShow_def Let_def)
qed

lemma printInterfaceBlocks_outcome:
  "snd (printInterfaceBlocks ifs ns) = Ok \<or> snd (printInterfaceBlocks ifs ns) = Panicked"
  by (induction ns) (auto split: option.splits prod.splits)

lemma printBriefLines_outcome:
  "snd (printBriefLines ifs ns) = Ok \<or> snd (printBriefLines ifs ns) = Panicked"
  by (induction ns) (auto simp add: Let_def split: option.splits prod.splits)

subsection \<open>The interface invariant under the handlers\<close>

lemma set_update_subset: "set (AList.update k v al) \<subseteq> insert (k, v) (set al)"
  by (induction al) auto

lemma isValidIP_nonempty: "isValidIP s \<Longrightarrow> s \<noteq> []"
  by (auto simp add: isValidIP_def ParseIP_def)

lemma configInvariant_setInterface:
  assumes "configInvariant sim" and "interfaceInvariant d"
  shows "configInvariant (setInterface k d sim)"
proof -
  have "interfaceInvariant (snd p)"
    if "p \<in> set (AList.update k d (Interfaces (runningConfig sim)))" for p
  proof -
    from that set_update_subset [of k d "Interfaces (runningConfig sim)"]
    have "p = (k, d) \<or> p \<in> set (Interfaces (runningConfig sim))" by blast
    with assms show ?thesis by (auto simp add: configInvariant_def)
  qed
  then show ?thesis by (simp add: configInvariant_def setInterface_def)
qed

lemma configInvariant_lookup:
  "configInvariant sim \<Longrightarrow> map_of (Interfaces (runningConfig sim)) k = Some d \<Longrightarrow>
   interfaceInvariant d"
  by (force simp add: configInvariant_def dest: map_of_SomeD)

lemma configInvariant_same:
  "Interfaces (runningConfig sim') = Interfaces (runningConfig sim) \<Longrightarrow>
   configInvariant sim \<Longrightarrow> configInvariant sim'"
  by (simp add: configInvariant_def)

lemma doIP_inv: "configInvariant sim \<Longrightarrow> configInvariant (fst (doIP sim args))"
  by (auto simp add: doIP_def Let_def interfaceInvariant_def split: option.splits
      intro!: configInvariant_setInterface dest: configInvariant_lookup isValidIP_nonempty)

lemma doShutdown_inv: "configInvariant sim \<Longrightarrow> configInvariant (fst (doShutdown sim args))"
  by (auto simp add: doShutdown_def Let_def interfaceInvariant_def split: option.splits
      intro!: configInvariant_setInterface dest: configInvariant_lookup)

lemma noShutdown_inv: "configInvariant sim \<Longrightarrow> configInvariant (fst (noShutdown sim args))"
  by (auto simp add: noShutdown_def Let_def interfaceInvariant_def split: option.splits
      intro!: configInvariant_setInterface dest: configInvariant_lookup)

lemma noIPAddress_inv: "configInvariant sim \<Longrightarrow> configInvariant (fst (noIPAddress sim args))"
  by (auto simp add: noIPAddress_def Let_def interfaceInvariant_def split: option.splits
      intro!: configInvariant_setInterface dest: configInvariant_lookup)

subsection \<open>Failure leaves the state unchanged\<close>

lemma simple_handlers_fail:
  "doHelp sim args = (sim', Failed e) \<Longrightarrow> sim' = sim"
  "doExitQuit sim args = (sim', Failed e) \<Longrightarrow> sim' = sim"
  "doExitMode sim args = (sim', Failed e) \<Longrightarrow> sim' = sim"
  "doEnd sim args = (sim', Failed e) \<Longrightarrow> sim' = sim"
  "doEnable sim args = (sim', Failed e) \<Longrightarrow> sim' = sim"
  "doDisable sim args = (sim', Failed e) \<Longrightarrow> sim' = sim"
  "doConfigure sim args = (sim', Failed e) \<Longrightarrow> sim' = sim"
  "doHostname sim args = (sim', Failed e) \<Longrightarrow> sim' = sim"
  "showVersion sim args = (sim', Failed e) \<Longrightarrow> sim' = sim"
  "showHistoryCmd sim args = (sim', Failed e) \<Longrightarrow> sim' = sim"
  by (auto simp add: doHelp_def doExitQuit_def doExitMode_def doEnd_def doEnable_def
      doDisable_def doConfigure_def doHostname_def showVersion_def showHistoryCmd_def Let_def
      split: if_splits Mode.splits)

lemma doInterface_fail: "doInterface sim args = (sim', Failed e) \<Longrightarrow> sim' = sim"
  by (auto simp add: doInterface_def Let_def split: if_splits option.splits sum.splits)

lemma interface_handlers_fail:
  "doIP sim args = (sim', Failed e) \<Longrightarrow> sim' = sim"
  "doShutdown sim args = (sim', Failed e) \<Longrightarrow> sim' = sim"
  "noShutdown sim args = (sim', Failed e) \<Longrightarrow> sim' = sim"
  "noIPAddress sim args = (sim', Failed e) \<Longrightarrow> sim' = sim"
  by (auto simp add: doIP_def doShutdown_def noShutdown_def noIPAddress_def Let_def
      split: if_splits option.splits)

lemma showRunningConfig_fail: "showRunningConfig sim args = (sim', Failed e) \<Longrightarrow> sim' = sim"
  using printInterfaceBlocks_outcome
    [of "Interfaces (runningConfig sim)" "sortedInterfaceNames sim"]
  by (auto simp add: showRunningConfig_def Let_def split: if_splits prod.splits)

lemma showIPInterfaceBrief_fail:
  "showIPInterfaceBrief sim args = (sim', Failed e) \<Longrightarrow> sim' = sim"
  using printBriefLines_outcome
    [of "Interfaces (runningConfig sim)" "sortedInterfaceNames sim"]
  by (auto simp add: showIPInterfaceBrief_def Let_def split: if_splits prod.splits)

lemma doNo_fail: "doNo sim args = (sim', Failed e) \<Longrightarrow> sim' = sim"
  using doNo_cases [of sim args]
  by (auto dest: interface_handlers_fail interface_handlers_fail [OF sym])

lemma doShow_fail: "doShow sim args = (sim', Failed e) \<Longrightarrow> sim' = sim"
  using doShow_cases [of sim args]
  by (auto dest: simple_handlers_fail simple_handlers_fail [OF sym]
      showRunningConfig_fail showRunningConfig_fail [OF sym]
      showIPInterfaceBrief_fail showIPInterfaceBrief_fail [OF sym])

lemma callHandler_fail: "callHandler h sim args = (sim', Failed e) \<Longrightarrow> sim' = sim"
  by (cases h)
    (auto dest: simple_handlers_fail doInterface_fail interface_handlers_fail doNo_fail
      doShow_fail)

lemma processCommand_fail: "processCommand sim line = (sim', Failed e) \<Longrightarrow> sim' = sim"
  by (auto simp add: processCommand_def split: list.splits sum.splits dest: callHandler_fail)

lemma simple_handlers_interfaces:
  "Interfaces (runningConfig (fst (doHelp sim args))) = Interfaces (runningConfig sim)"
  "Interfaces (runningConfig (fst (doExitQuit sim args))) = Interfaces (runningConfig sim)"
  "Interfaces (runningConfig (fst (doExitMode sim args))) = Interfaces (runningConfig sim)"
  "Interfaces (runningConfig (fst (doEnd sim args))) = Interfaces (runningConfig sim)"
  "Interfaces (runningConfig (fst (doEnable sim args))) = Interfaces (runningConfig sim)"
  "Interfaces (runningConfig (fst (doDisable sim args))) = Interfaces (runningConfig sim)"
  "Interfaces (runningConfig (fst (doConfigure sim args))) = Interfaces (runningConfig sim)"
  "Interfaces (runningConfig (fst (doHostname sim args))) = Interfaces (runningConfig sim)"
  "Interfaces (runningConfig (fst (showVersion sim args))) = Interfaces (runningConfig sim)"
  "Interfaces (runningConfig (fst (showHistoryCmd sim args))) = Interfaces (runningConfig sim)"
  "Interfaces (runningConfig (fst (showRunningConfig sim args))) = Interfaces (runningConfig sim)"
  "Interfaces (runningConfig (fst (showIPInterfaceBrief sim args))) =
     Interfaces (runningConfig sim)"
  by (auto simp add: doHelp_def doExitQuit_def doExitMode_def doEnd_def doEnable_def
      doDisable_def doConfigure_def doHostname_def showVersion_def showHistoryCmd_def
      showRunningConfig_def showIPInterfaceBrief_def println_def Let_def
      split: Mode.splits prod.splits)

lemma simple_handlers_inv:
  "configInvariant sim \<Longrightarrow> configInvariant (fst (doHelp sim args))"
  "configInvariant sim \<Longrightarrow> configInvariant (fst (doExitQuit sim args))"
  "configInvariant sim \<Longrightarrow> configInvariant (fst (doExitMode sim args))"
  "configInvariant sim \<Longrightarrow> configInvariant (fst (doEnd sim args))"
  "configInvariant sim \<Longrightarrow> configInvariant (fst (doEnable sim args))"
  "configInvariant sim \<Longrightarrow> configInvariant (fst (doDisable sim args))"
  "configInvariant sim \<Longrightarrow> configInvariant (fst (doConfigure sim args))"
  "configInvariant sim \<Longrightarrow> configInvariant (fst (doHostname sim args))"
  "configInvariant sim \<Longrightarrow> configInvariant (fst (showVersion sim args))"
  "configInvariant sim \<Longrightarrow> configInvariant (fst (showHistoryCmd sim args))"
  "configInvariant sim \<Longrightarrow> configInvariant (fst (showRunningConfig sim args))"
  "configInvariant sim \<Longrightarrow> configInvariant (fst (showIPInterfaceBrief sim args))"
  by (simp_all add: configInvariant_def simple_handlers_interfaces)

lemma doInterface_inv: "configInvariant sim \<Longrightarrow> configInvariant (fst (doInterface sim args))"
  by (auto simp add: doInterface_def Let_def configInvariant_def interfaceInvariant_def
      split: option.splits sum.splits)

lemma doNo_inv: "configInvariant sim \<Longrightarrow> configInvariant (fst (doNo sim args))"
  using doNo_cases [of sim args]
  by (auto simp add: noShutdown_inv noIPAddress_inv)

lemma doShow_inv: "configInvariant sim \<Longrightarrow> configInvariant (fst (doShow sim args))"
  using doShow_cases [of sim args]
  by (auto simp add: simple_handlers_inv)

lemma callHandler_inv: "configInvariant sim \<Longrightarrow> configInvariant (fst (callHandler h sim args))"
  by (cases h)
    (simp_all add: simple_handlers_inv doInterface_inv doIP_inv doShutdown_inv doNo_inv
      doShow_inv)

lemma processCommand_inv: "configInvariant sim \<Longrightarrow> configInvariant (fst (processCommand sim l))"
  by (simp add: processCommand_def callHandler_inv split: list.splits sum.splits)

lemma reachable_inv: "reachable sim \<Longrightarrow> configInvariant sim"
proof (induction rule: reachable.induct)
  case (start h)
  show ?case by (simp add: configInvariant_def NewCiscoDeviceSimulator_def)
next
  case (line sim l)
  then show ?case by (simp add: processCommand_inv)
next
  case (eof sim)
  then show ?case by (simp add: simple_handlers_inv)
next
  case (env sim hist out t)
  then show ?case by (simp add: configInvariant_def)
qed

subsection \<open>Resolution over a list of candidates\<close>

lemma valid_set: "{c \<in> snd ` set xs. Q c} = set (filter Q (map snd xs))"
  by auto

lemma mode_commands:
  "\<exists>cs. distinct (map (\<lambda>c. ToLower (Name c)) cs) \<and>
        set cs = {c \<in> snd ` set definedCommands. mode sim \<in> set (Modes c)} \<and>
        (\<forall>c \<in> set cs. Name c \<noteq> ''?'') \<and>
        (\<forall>u. collectMatches u (getValidCommandsForMode sim) =
              filter (\<lambda>c. HasPrefix (ToLower (Name c)) u) cs)"
proof (cases "mode sim")
  case ModeUserExec
  let ?cs = "[\<lparr>Name = ''enable'', Handler = DoEnable, Modes = [ModeUserExec]\<rparr>,
      \<lparr>Name = ''exit'', Handler = DoExitQuit,
         Modes = [ModeUserExec, ModePrivExec, ModeGlobalConfig, ModeInterfaceConfig]\<rparr>,
      \<lparr>Name = ''quit'', Handler = DoExitQuit, Modes = [ModeUserExec]\<rparr>]"
  have 1: "distinct (map (\<lambda>c. ToLower (Name c)) ?cs)"
    by (simp add: ToLower_names)
  have 2: "set ?cs = {c \<in> snd ` set definedCommands. mode sim \<in> set (Modes c)}"
    unfolding valid_set ModeUserExec by (simp add: definedCommands_eq insert_commute)
  have 3: "\<forall>c \<in> set ?cs. Name c \<noteq> ''?''"
    by simp
  have 4: "\<forall>u. collectMatches u (getValidCommandsForMode sim) =
              filter (\<lambda>c. HasPrefix (ToLower (Name c)) u) ?cs"
    using ModeUserExec by (simp add: getValidCommandsForMode_eq definedCommands_eq)
  from 1 2 3 4 show ?thesis by blast
next
  case ModePrivExec
  let ?cs = "[\<lparr>Name = ''configure'', Handler = DoConfigure, Modes = [ModePrivExec]\<rparr>,
      \<lparr>Name = ''disable'', Handler = DoDisable, Modes = [ModePrivExec]\<rparr>,
      \<lparr>Name = ''exit'', Handler = DoExitQuit,
         Modes = [ModeUserExec, ModePrivExec, ModeGlobalConfig, ModeInterfaceConfig]\<rparr>,
      \<lparr>Name = ''history'', Handler = ShowHistoryCmd, Modes = [ModePrivExec]\<rparr>,
      \<lparr>Name = ''show'', Handler = DoShow, Modes = [ModePrivExec]\<rparr>]"
  have 1: "distinct (map (\<lambda>c. ToLower (Name c)) ?cs)"
    by (simp add: ToLower_names)
  have 2: "set ?cs = {c \<in> snd ` set definedCommands. mode sim \<in> set (Modes c)}"
    unfolding valid_set ModePrivExec by (simp add: definedCommands_eq insert_commute)
  have 3: "\<forall>c \<in> set ?cs. Name c \<noteq> ''?''"
    by simp
  have 4: "\<forall>u. collectMatches u (getValidCommandsForMode sim) =
              filter (\<lambda>c. HasPrefix (ToLower (Name c)) u) ?cs"
    using ModePrivExec by (simp add: getValidCommandsForMode_eq definedCommands_eq)
  from 1 2 3 4 show ?thesis by blast
next
  case ModeGlobalConfig
  let ?cs = "[\<lparr>Name = ''end'', Handler = DoEnd,
         Modes = [ModeGlobalConfig, ModeInterfaceConfig]\<rparr>,
      \<lparr>Name = ''exit'', Handler = DoExitQuit,
         Modes = [ModeUserExec, ModePrivExec, ModeGlobalConfig, ModeInterfaceConfig]\<rparr>,
      \<lparr>Name = ''hostname'', Handler = DoHostname, Modes = [ModeGlobalConfig]\<rparr>,
      \<lparr>Name = ''interface'', Handler = DoInterface, Modes = [ModeGlobalConfig]\<rparr>,
      \<lparr>Name = ''no'', Handler = DoNo, Modes = [ModeGlobalConfig, ModeInterfaceConfig]\<rparr>]"
  have 1: "distinct (map (\<lambda>c. ToLower (Name c)) ?cs)"
    by (simp add: ToLower_names)
  have 2: "set ?cs = {c \<in> snd ` set definedCommands. mode sim \<in> set (Modes c)}"
    unfolding valid_set ModeGlobalConfig by (simp add: definedCommands_eq insert_commute)
  have 3: "\<forall>c \<in> set ?cs. Name c \<noteq> ''?''"
    by simp
  have 4: "\<forall>u. collectMatches u (getValidCommandsForMode sim) =
              filter (\<lambda>c. HasPrefix (ToLower (Name c)) u) ?cs"
    using ModeGlobalConfig by (simp add: getValidCommandsForMode_eq definedCommands_eq)
  from 1 2 3 4 show ?thesis by blast
next
  case ModeInterfaceConfig
  let ?cs = "[\<lparr>Name = ''end'', Handler = DoEnd,
         Modes = [ModeGlobalConfig, ModeInterfaceConfig]\<rparr>,
      \<lparr>Name = ''exit'', Handler = DoExitQuit,
         Modes = [ModeUserExec, ModePrivExec, ModeGlobalConfig, ModeInterfaceConfig]\<rparr>,
      \<lparr>Name = ''ip'', Handler = DoIP, Modes = [ModeInterfaceConfig]\<rparr>,
      \<lparr>Name = ''no'', Handler = DoNo, Modes = [ModeGlobalConfig, ModeInterfaceConfig]\<rparr>,
      \<lparr>Name = ''shutdown'', Handler = DoShutdown, Modes = [ModeInterfaceConfig]\<rparr>]"
  have 1: "distinct (map (\<lambda>c. ToLower (Name c)) ?cs)"
    by (simp add: ToLower_names)
  have 2: "set ?cs = {c \<in> snd ` set definedCommands. mode sim \<in> set (Modes c)}"
    unfolding valid_set ModeInterfaceConfig by (simp add: definedCommands_eq insert_commute)
  have 3: "\<forall>c \<in> set ?cs. Name c \<noteq> ''?''"
    by simp
  have 4: "\<forall>u. collectMatches u (getValidCommandsForMode sim) =
              filter (\<lambda>c. HasPrefix (ToLower (Name c)) u) ?cs"
    using ModeInterfaceConfig by (simp add: getValidCommandsForMode_eq definedCommands_eq)
  from 1 2 3 4 show ?thesis by blast
qed

lemma filter_singleton:
  assumes "distinct xs" and "set (filter P xs) = {c}"
  shows "filter P xs = [c]"
proof -
  have "distinct (filter P xs)" using assms(1) by simp
  moreover have "card (set (filter P xs)) = 1" using assms(2) by simp
  ultimately have "length (filter P xs) = 1" by (metis distinct_card)
  then obtain y where "filter P xs = [y]" by (cases "filter P xs") auto
  with assms(2) show ?thesis by simp
qed

lemma filter_many:
  assumes "card (set ms) > 1"
  shows "\<exists>a b rest. ms = a # b # rest"
proof (cases ms)
  case Nil
  with assms show ?thesis by simp
next
  case (Cons a tl)
  show ?thesis
  proof (cases tl)
    case Nil
    with Cons assms show ?thesis by simp
  next
    case (Cons b rest)
    with \<open>ms = a # tl\<close> show ?thesis by blast
  qed
qed

lemma find_exact:
  assumes inj: "inj_on f (set ms)"
  shows "{c \<in> set ms. f c = u} = {c} \<Longrightarrow> find (\<lambda>m. f m = u) ms = Some c"
    and "(\<nexists>c. {c \<in> set ms. f c = u} = {c}) \<Longrightarrow> find (\<lambda>m. f m = u) ms = None"
proof -
  assume e: "{c \<in> set ms. f c = u} = {c}"
  then have "\<exists>x \<in> set ms. f x = u" by blast
  then obtain y where y: "find (\<lambda>m. f m = u) ms = Some y"
    by (cases "find (\<lambda>m. f m = u) ms") (auto simp add: find_None_iff)
  then have "y \<in> set ms \<and> f y = u"
    by (auto simp add: find_Some_iff)
  with e have "y = c" by blast
  with y show "find (\<lambda>m. f m = u) ms = Some c" by simp
next
  assume n: "\<nexists>c. {c \<in> set ms. f c = u} = {c}"
  have "\<not> (\<exists>x \<in> set ms. f x = u)"
  proof
    assume "\<exists>x \<in> set ms. f x = u"
    then obtain x where x: "x \<in> set ms" "f x = u" by blast
    have "{c \<in> set ms. f c = u} = {x}"
      using x inj by (auto dest: inj_onD)
    with n show False by blast
  qed
  then show "find (\<lambda>m. f m = u) ms = None"
    by (simp add: find_None_iff)
qed

lemma resolve_list:
  fixes ms :: "CommandDef list" and t u :: string
  assumes d: "distinct ms" and inj: "inj_on (\<lambda>c. ToLower (Name c)) (set ms)"
  defines "r \<equiv> (case ms of
              [] \<Rightarrow> Inl (ErrInvalidInput t)
            | [m] \<Rightarrow> Inr m
            | matches \<Rightarrow>
                (case find (\<lambda>m. ToLower (Name m) = u) matches of
                   Some m \<Rightarrow> Inr m
                 | None \<Rightarrow> Inl (ErrAmbiguousCommand t)))"
  shows "set ms = {} \<Longrightarrow> r = Inl (ErrInvalidInput t)"
    and "set ms = {c} \<Longrightarrow> r = Inr c"
    and "card (set ms) > 1 \<Longrightarrow> {c \<in> set ms. ToLower (Name c) = u} = {c} \<Longrightarrow> r = Inr c"
    and "card (set ms) > 1 \<Longrightarrow> (\<nexists>c. {c \<in> set ms. ToLower (Name c) = u} = {c}) \<Longrightarrow>
         r = Inl (ErrAmbiguousCommand t)"
proof -
  show "set ms = {} \<Longrightarrow> r = Inl (ErrInvalidInput t)"
    by (simp add: r_def)
next
  assume s: "set ms = {c}"
  have "card (set ms) = 1" using s by simp
  with d have "length ms = 1" by (metis distinct_card)
  then obtain y where "ms = [y]" by (cases ms) auto
  with s show "r = Inr c" by (simp add: r_def)
next
  assume m: "card (set ms) > 1" and e: "{c \<in> set ms. ToLower (Name c) = u} = {c}"
  from filter_many [OF m] obtain a b rest where ms: "ms = a # b # rest" by blast
  from find_exact(1) [OF inj e] have "find (\<lambda>m. ToLower (Name m) = u) ms = Some c" .
  then show "r = Inr c" unfolding r_def ms by simp
next
  assume m: "card (set ms) > 1"
    and n: "\<nexists>c. {c \<in> set ms. ToLower (Name c) = u} = {c}"
  from filter_many [OF m] obtain a b rest where ms: "ms = a # b # rest" by blast
  from find_exact(2) [OF inj n] have "find (\<lambda>m. ToLower (Name m) = u) ms = None" .
  then show "r = Inl (ErrAmbiguousCommand t)" unfolding r_def ms by simp
qed

subsection \<open>The stable sort by interface key\<close>

lemma lessInterface_lex:
  "lessInterface a b =
     (case (sortInterfaceKey a, sortInterfaceKey b) of
        ((t1, s1, p1), (t2, s2, p2)) \<Rightarrow>
          t1 < t2 \<or> t1 = t2 \<and> (s1 < s2 \<or> s1 = s2 \<and> p1 < p2))"
  by (auto simp add: lessInterface_def split: prod.splits)

lemma lessInterface_key: "lessInterface a b \<Longrightarrow> sortInterfaceKey a \<noteq> sortInterfaceKey b"
  by (auto simp add: lessInterface_def split: prod.splits if_splits)

lemma lessInterface_asym: "lessInterface a b \<Longrightarrow> \<not> lessInterface b a"
  by (auto simp add: lessInterface_lex split: prod.splits)

lemma notless_trans:
  "\<not> lessInterface b a \<Longrightarrow> \<not> lessInterface c b \<Longrightarrow> \<not> lessInterface c a"
  by (auto simp add: lessInterface_lex split: prod.splits)

lemma set_insertStable: "set (insertStable lt x ys) = insert x (set ys)"
  by (induction ys) auto

lemma mset_insertStable: "mset (insertStable lt x ys) = add_mset x (mset ys)"
  by (induction ys) auto

lemma mset_SliceStable: "mset (SliceStable lt xs) = mset xs"
  by (induction xs) (simp_all add: SliceStable_def mset_insertStable)

lemma sorted_insertStable:
  "sorted_wrt (\<lambda>a b. \<not> lessInterface b a) ys \<Longrightarrow>
   sorted_wrt (\<lambda>a b. \<not> lessInterface b a) (insertStable lessInterface x ys)"
proof (induction ys)
  case Nil
  show ?case by simp
next
  case (Cons y ys)
  show ?case
  proof (cases "lessInterface y x")
    case True
    with Cons show ?thesis
      by (auto simp add: set_insertStable dest: lessInterface_asym)
  next
    case False
    from Cons.prems have "\<forall>z \<in> set ys. \<not> lessInterface z y" by simp
    with False have "\<forall>z \<in> set ys. \<not> lessInterface z x"
      by (metis notless_trans)
    with False Cons.prems show ?thesis by simp
  qed
qed

lemma sorted_SliceStable:
  "sorted_wrt (\<lambda>a b. \<not> lessInterface b a) (SliceStable lessInterface xs)"
  by (induction xs) (simp_all add: SliceStable_def sorted_insertStable)

lemma filter_insertStable:
  "filter (\<lambda>n. sortInterfaceKey n = k) (insertStable lessInterface x ys) =
     (if sortInterfaceKey x = k then x # filter (\<lambda>n. sortInterfaceKey n = k) ys
      else filter (\<lambda>n. sortInterfaceKey n = k) ys)"
  by (induction ys) (auto dest: lessInterface_key)

lemma filter_SliceStable:
  "filter (\<lambda>n. sortInterfaceKey n = k) (SliceStable lessInterface xs) =
     filter (\<lambda>n. sortInterfaceKey n = k) xs"
  by (induction xs) (simp_all add: SliceStable_def filter_insertStable)

lemma printInterfaceBlocks_names:
  "set ns \<subseteq> fst ` set ifs \<Longrightarrow>
   snd (printInterfaceBlocks ifs ns) = Ok \<and>
   filter (prefix ''interface '') (fst (printInterfaceBlocks ifs ns)) =
     map (\<lambda>n. ''interface '' @ n) ns"
proof (induction ns)
  case Nil
  show ?case by simp
next
  case (Cons n ns)
  from Cons.prems obtain d where d: "map_of ifs n = Some d"
    by (cases "map_of ifs n") (auto simp add: map_of_eq_None_iff)
  from Cons have ih: "snd (printInterfaceBlocks ifs ns) = Ok"
      "filter (prefix ''interface '') (fst (printInterfaceBlocks ifs ns)) =
         map (\<lambda>n. ''interface '' @ n) ns"
    by simp_all
  show ?case using d ih
    by (simp add: Let_def case_prod_beta)
qed

lemma printBriefLines_names:
  "set ns \<subseteq> fst ` set ifs \<Longrightarrow>
   snd (printBriefLines ifs ns) = Ok \<and>
   list_all2 (\<lambda>n l. prefix (padRight 26 n) l) ns (fst (printBriefLines ifs ns))"
proof (induction ns)
  case Nil
  show ?case by simp
next
  case (Cons n ns)
  from Cons.prems obtain d where d: "map_of ifs n = Some d"
    by (cases "map_of ifs n") (auto simp add: map_of_eq_None_iff)
  from Cons have ih: "snd (printBriefLines ifs ns) = Ok"
      "list_all2 (\<lambda>n l. prefix (padRight 26 n) l) ns (fst (printBriefLines ifs ns))"
    by simp_all
  show ?case using d ih
    by (simp add: Let_def case_prod_beta)
qed

lemma set_sortedInterfaceNames:
  "set (sortedInterfaceNames sim) = fst ` set (Interfaces (runningConfig sim))"
proof -
  have "mset (sortedInterfaceNames sim) = mset (map fst (Interfaces (runningConfig sim)))"
    by (simp add: sortedInterfaceNames_def mset_SliceStable)
  then have "set (sortedInterfaceNames sim) = set (map fst (Interfaces (runningConfig sim)))"
    by (rule mset_eq_setD)
  then show ?thesis by simp
qed

lemma showRunningConfig_lists:
  "snd (showRunningConfig sim []) = Ok \<and>
   filter (prefix ''interface '')
     (drop (length (stdout sim)) (stdout (fst (showRunningConfig sim [])))) =
     map (\<lambda>n. ''interface '' @ n) (sortedInterfaceNames sim)"
  using printInterfaceBlocks_names
    [of "sortedInterfaceNames sim" "Interfaces (runningConfig sim)"]
  by (simp add: set_sortedInterfaceNames showRunningConfig_def println_def Let_def
      case_prod_beta)

lemma showIPInterfaceBrief_lists:
  "snd (showIPInterfaceBrief sim []) = Ok \<and>
   list_all2 (\<lambda>n l. prefix (padRight 26 n) l) (sortedInterfaceNames sim)
     (tl (drop (length (stdout sim)) (stdout (fst (showIPInterfaceBrief sim [])))))"
  using printBriefLines_names
    [of "sortedInterfaceNames sim" "Interfaces (runningConfig sim)"]
  by (simp add: set_sortedInterfaceNames showIPInterfaceBrief_def println_def Let_def
      case_prod_beta)

lemma keys_eval:
  "sortInterfaceKey ''FastEthernet0/1'' = (1, 0, 1)"
  "sortInterfaceKey ''GigabitEthernet0/1'' = (2, 0, 1)"
  "sortInterfaceKey ''TenGigabitEthernet0/1'' = (3, 0, 1)"
  "sortInterfaceKey ''Ethernet0/1'' = (99, 0, 1)"
  "sortInterfaceKey ''Loopback0'' = (999, 0, 0)"
  by code_simp+

section \<open>The claims\<close>

subsection \<open>Exit from the configuration modes\<close>

text \<open>
  C3.  The claim: the resolved \<^verbatim>\<open>exit\<close> command moves the session from
  GlobalConfig to PrivilegedExec and from InterfaceConfig to GlobalConfig.  The code:
  the table registers \<^verbatim>\<open>exit\<close> twice, and the second registration only extends the
  mode list of the first, whose handler \<^verbatim>\<open>doExitQuit\<close> stays.  In both configuration
  modes the word \<^verbatim>\<open>exit\<close> therefore resolves to \<^verbatim>\<open>doExitQuit\<close>, which returns an
  error there and leaves the state as it is.
\<close>

theorem exit_in_config_mode_fails:
  "mode sim = ModeGlobalConfig \<or> mode sim = ModeInterfaceConfig \<Longrightarrow>
   findCommandByAbbreviation sim ''exit'' =
     Inr \<lparr>Name = ''exit'', Handler = DoExitQuit,
          Modes = [ModeUserExec, ModePrivExec, ModeGlobalConfig, ModeInterfaceConfig]\<rparr> \<and>
   processCommand sim ''exit'' =
     (sim, Failed (ErrPlain ''exit/quit command not valid in this mode''))"
  by (auto simp add: processCommand_def string_evals findCommandByAbbreviation_def
      getValidCommandsForMode_eq definedCommands_eq doExitQuit_def)

theorem exit_in_config_mode_fails_witness:
  "mode (processLines (NewCiscoDeviceSimulator ''Router'') [''enable'', ''configure terminal''])
     = ModeGlobalConfig \<and>
   processCommand
     (processLines (NewCiscoDeviceSimulator ''Router'') [''enable'', ''configure terminal''])
     ''exit'' =
     (processLines (NewCiscoDeviceSimulator ''Router'') [''enable'', ''configure terminal''],
      Failed (ErrPlain ''exit/quit command not valid in this mode''))"
proof -
  have m: "mode (processLines (NewCiscoDeviceSimulator ''Router'')
             [''enable'', ''configure terminal'']) = ModeGlobalConfig"
    by code_simp
  from exit_in_config_mode_fails [of "processLines (NewCiscoDeviceSimulator ''Router'')
             [''enable'', ''configure terminal'']"] m
  show ?thesis by simp
qed

subsection \<open>Handlers without arguments\<close>

text \<open>
  C5.  The claim: every handler that takes no argument fails when it is given one.  The
  code: \<^verbatim>\<open>doShutdown\<close>, \<^verbatim>\<open>noShutdown\<close>, \<^verbatim>\<open>showVersion\<close> and
  \<^verbatim>\<open>showHistoryCmd\<close> test the length of their argument list, while
  \<^verbatim>\<open>doEnable\<close>, \<^verbatim>\<open>doDisable\<close>, \<^verbatim>\<open>doEnd\<close> and \<^verbatim>\<open>doExitMode\<close> never read
  it: with arguments they do what they do without, and the line \<^verbatim>\<open>enable now\<close>
  enters the privileged mode.
\<close>

theorem zero_argument_handlers_accept_arguments:
  "doEnable sim (a # args) = (sim\<lparr>mode := ModePrivExec\<rparr>, Ok) \<and>
   doDisable sim (a # args) = (sim\<lparr>mode := ModeUserExec\<rparr>, Ok) \<and>
   doEnd sim (a # args) = doEnd sim [] \<and>
   doExitMode sim (a # args) = doExitMode sim [] \<and>
   processCommand (NewCiscoDeviceSimulator ''Router'') ''enable now'' =
     ((NewCiscoDeviceSimulator ''Router'')\<lparr>mode := ModePrivExec\<rparr>, Ok)"
  by (simp add: doEnable_def doDisable_def doEnd_def doExitMode_def processCommand_def
      string_evals findCommandByAbbreviation_def getValidCommandsForMode_eq definedCommands_eq
      NewCiscoDeviceSimulator_def)

subsection \<open>The operand of configure\<close>

text \<open>
  C6.  The claim: \<^verbatim>\<open>configure\<close> succeeds exactly when its first argument is a prefix
  of \<^verbatim>\<open>terminal\<close>.  The code tests that the argument begins with the letter
  \<^verbatim>\<open>t\<close>: the word \<^verbatim>\<open>tx\<close>, which is no prefix of \<^verbatim>\<open>terminal\<close>, enters the
  global configuration mode.
\<close>

theorem configure_accepts_any_word_in_t:
  "\<not> prefix (ToLower ''tx'') ''terminal'' \<and>
   processCommand (processLines (NewCiscoDeviceSimulator ''Router'') [''enable''])
     ''configure tx'' =
     ((processLines (NewCiscoDeviceSimulator ''Router'') [''enable''])
        \<lparr>mode := ModeGlobalConfig,
         stdout := [''Enter configuration commands, one per line. End with CNTL/Z or 'end'.'']\<rparr>,
      Ok)"
  by code_simp

subsection \<open>The operands of ip address\<close>

text \<open>
  C7.  The claim: \<^verbatim>\<open>ip address\<close> succeeds if and only if both operands are IPv4
  literals.  The code accepts whatever \<^verbatim>\<open>net.ParseIP\<close> accepts, which includes the
  IPv6 forms: the line \<^verbatim>\<open>ip address ::1 255.255.255.0\<close> succeeds and stores
  \<^verbatim>\<open>::1\<close> as the address of the interface.
\<close>

theorem ip_address_accepts_ipv6:
  "processCommand
     (processLines (NewCiscoDeviceSimulator ''Router'')
        [''enable'', ''configure terminal'', ''interface g0/0''])
     ''ip address ::1 255.255.255.0'' =
     (setInterface ''GigabitEthernet0/0''
        \<lparr>IPAddress = ''::1'', SubnetMask = ''255.255.255.0'',
         Status = ''administratively down'', AdminStatus = ''down''\<rparr>
        (processLines (NewCiscoDeviceSimulator ''Router'')
           [''enable'', ''configure terminal'', ''interface g0/0'']),
      Ok)"
  by code_simp

subsection \<open>Canonical interface names\<close>

text \<open>
  C8.  The arguments \<^verbatim>\<open>g0/0\<close>, \<^verbatim>\<open>gi0/0\<close> and \<^verbatim>\<open>GigabitEthernet0/0\<close> of the
  \<^verbatim>\<open>interface\<close> handler are normalised to the same name,
  \<^verbatim>\<open>GigabitEthernet0/0\<close>: from any state the three calls end in the same state, in
  which that name is the current interface and a key of the interface map.
\<close>

theorem interface_names_canonical:
  "doInterface sim [''g0/0''] = doInterface sim [''gi0/0''] \<and>
   doInterface sim [''gi0/0''] = doInterface sim [''GigabitEthernet0/0''] \<and>
   snd (doInterface sim [''g0/0'']) = Ok \<and>
   currentInterface (fst (doInterface sim [''g0/0''])) = ''GigabitEthernet0/0'' \<and>
   ''GigabitEthernet0/0'' \<in> fst ` set (Interfaces (runningConfig (fst (doInterface sim [''g0/0''])))) \<and>
   normalizeInterfaceName ''g'' ''0/0'' = Inr ''GigabitEthernet0/0'' \<and>
   normalizeInterfaceName ''gi'' ''0/0'' = Inr ''GigabitEthernet0/0'' \<and>
   normalizeInterfaceName ''GigabitEthernet'' ''0/0'' = Inr ''GigabitEthernet0/0''"
  by (simp add: doInterface_def Join_def matchInterface_def matchNumber_def isLetter_def
      isDigit_def isReSpace_def normalizeInterfaceName_def HasPrefix_def ToLower_def
      lowerChar_def Let_def map_of_eq_None_iff)

theorem interface_names_canonical_witness:
  "fst (doInterface (NewCiscoDeviceSimulator ''Router'') [''gi0/0'']) =
     \<lparr>hostname = ''Router'', mode = ModeInterfaceConfig,
      runningConfig = \<lparr>Hostname = ''Router'', Interfaces =
        [(''GigabitEthernet0/0'', \<lparr>IPAddress = [], SubnetMask = [],
           Status = ''administratively down'', AdminStatus = ''down''\<rparr>)]\<rparr>,
      currentInterface = ''GigabitEthernet0/0'', commandHistory = [], stdout = [],
      uptime = 0\<rparr> \<and>
   fst (doInterface (NewCiscoDeviceSimulator ''Router'') [''GigabitEthernet0/0'']) =
     fst (doInterface (NewCiscoDeviceSimulator ''Router'') [''g0/0''])"
proof -
  have "fst (doInterface (NewCiscoDeviceSimulator ''Router'') [''g0/0'']) =
     \<lparr>hostname = ''Router'', mode = ModeInterfaceConfig,
      runningConfig = \<lparr>Hostname = ''Router'', Interfaces =
        [(''GigabitEthernet0/0'', \<lparr>IPAddress = [], SubnetMask = [],
           Status = ''administratively down'', AdminStatus = ''down''\<rparr>)]\<rparr>,
      currentInterface = ''GigabitEthernet0/0'', commandHistory = [], stdout = [],
      uptime = 0\<rparr>"
    by code_simp
  with interface_names_canonical [of "NewCiscoDeviceSimulator ''Router''"]
  show ?thesis by simp
qed

subsection \<open>The subcommand run of show\<close>

text \<open>
  C10.  Among the subcommands of \<^verbatim>\<open>show\<close> both \<^verbatim>\<open>run\<close> and
  \<^verbatim>\<open>running-config\<close> begin with \<^verbatim>\<open>run\<close>.  The word \<^verbatim>\<open>run\<close>, in any mix of
  cases, calls the renderer of the running configuration, and every strictly shorter
  prefix of it is reported as ambiguous.
\<close>

theorem show_run_special_case:
  "filter (\<lambda>opt. HasPrefix opt ''run'') [''version'', ''running-config'', ''run'', ''ip'', ''history'']
     = [''running-config'', ''run''] \<and>
   (ToLower t = ''run'' \<longrightarrow> doShow sim (t # rest) = showRunningConfig sim rest) \<and>
   (strict_prefix (ToLower t) ''run'' \<longrightarrow>
      doShow sim (t # rest) = (sim, Failed (ErrAmbiguousCommand (''show '' @ t))))"
proof (intro conjI impI)
  show "filter (\<lambda>opt. HasPrefix opt ''run'') [''version'', ''running-config'', ''run'', ''ip'', ''history'']
     = [''running-config'', ''run'']"
    by (simp add: HasPrefix_def)
next
  assume "ToLower t = ''run''"
  then show "doShow sim (t # rest) = showRunningConfig sim rest"
    by (simp add: doShow_def HasPrefix_def contains_def Let_def ToLower_names)
next
  assume "strict_prefix (ToLower t) ''run''"
  then have "ToLower t = [] \<or> ToLower t = ''r'' \<or> ToLower t = ''ru''"
    by (rule strict_prefix_run)
  then show "doShow sim (t # rest) = (sim, Failed (ErrAmbiguousCommand (''show '' @ t)))"
    by (rule show_ambiguous)
qed

theorem show_run_special_case_witness:
  "doShow (NewCiscoDeviceSimulator ''Router'') [''run''] =
     showRunningConfig (NewCiscoDeviceSimulator ''Router'') [] \<and>
   doShow (NewCiscoDeviceSimulator ''Router'') [''ru''] =
     (NewCiscoDeviceSimulator ''Router'', Failed (ErrAmbiguousCommand ''show ru'')) \<and>
   doShow (NewCiscoDeviceSimulator ''Router'') [''r''] =
     (NewCiscoDeviceSimulator ''Router'', Failed (ErrAmbiguousCommand ''show r''))"
proof -
  have l: "ToLower ''run'' = ''run''" "ToLower ''ru'' = ''ru''" "ToLower ''r'' = ''r''"
    by (simp_all add: ToLower_def lowerChar_def)
  have s: "strict_prefix ''ru'' ''run''" "strict_prefix ''r'' ''run''"
    by (simp_all add: strict_prefix_def)
  from show_run_special_case [of "''run''" "NewCiscoDeviceSimulator ''Router''" "[]"] l
  have a: "doShow (NewCiscoDeviceSimulator ''Router'') [''run''] =
     showRunningConfig (NewCiscoDeviceSimulator ''Router'') []" by blast
  from show_run_special_case [of "''ru''" "NewCiscoDeviceSimulator ''Router''" "[]"] l s
  have b: "doShow (NewCiscoDeviceSimulator ''Router'') [''ru''] =
     (NewCiscoDeviceSimulator ''Router'', Failed (ErrAmbiguousCommand (''show '' @ ''ru'')))"
    by presburger
  from show_run_special_case [of "''r''" "NewCiscoDeviceSimulator ''Router''" "[]"] l s
  have c: "doShow (NewCiscoDeviceSimulator ''Router'') [''r''] =
     (NewCiscoDeviceSimulator ''Router'', Failed (ErrAmbiguousCommand (''show '' @ ''r'')))"
    by presburger
  from a b c show ?thesis by simp
qed

end
